theory Spec2Isabelle
  imports Complex_Main
begin

unbundle bit_operations_syntax

section \<open>Rasters, images and collections\<close>

text \<open>
  The script \<^verbatim>\<open>code-gee.js\<close> is a pipeline of Earth Engine operations. An image is a
  list of named bands together with its metadata properties; a band gives every pixel of
  the grid a number, or nothing where the pixel is masked. Pixel arithmetic is taken over
  the real numbers, so the rounding error of the platform's floating-point numbers is
  not part of the model. Masks are two-valued (a pixel is masked or it is not), and the
  grid is the one of the sampling scale of the script (1000 m).

  Time properties (\<^verbatim>\<open>system:time_start\<close>, \<^verbatim>\<open>system:time_end\<close>) are milliseconds since
  1970-01-01T00:00:00Z.
\<close>

type_synonym pixel = "int \<times> int"

type_synonym band = "pixel \<Rightarrow> real option"

record image =
  bands :: "(string \<times> band) list"
  props :: "(string \<times> int) list"

text \<open>
  A feature of a boundary dataset has text attributes and a geometry, the pixels of the
  grid that it covers.
\<close>

record feature =
  attrs :: "(string \<times> string) list"
  geometry :: "pixel list"

text \<open>
  The three datasets that the script reads by their identifiers: the boundary dataset
  \<^verbatim>\<open>biomas_IBGE_250mil\<close>, the land-surface-temperature collection
  \<^verbatim>\<open>MODIS/006/MOD11A1\<close> and the reanalysis collection \<^verbatim>\<open>ECMWF/ERA5/DAILY\<close>. They
  are the inputs of a run.
\<close>

record datasets =
  biomas_IBGE_250mil :: "feature list"
  MOD11A1 :: "image list"
  ERA5_DAILY :: "image list"

text \<open>
  The platform rejects some requests. Each rejection that a call of the script can meet
  is a value of \<open>ee_error\<close>; an operation that can be rejected returns \<open>ee_error + 'a\<close>.
\<close>

datatype ee_error =
    BandNotFound string
  | BandCountMismatch nat nat
  | NullOperand string
  | MissingProperty string
  | RenameArity nat nat
  | TooManyPixels nat

definition and_then :: "ee_error + 'a \<Rightarrow> ('a \<Rightarrow> ee_error + 'b) \<Rightarrow> ee_error + 'b" where
  "and_then r f = (case r of Inl e \<Rightarrow> Inl e | Inr x \<Rightarrow> f x)"

definition pixel_at :: "image \<Rightarrow> string \<Rightarrow> pixel \<Rightarrow> real option" where
  "pixel_at img n p = (case map_of (bands img) n of None \<Rightarrow> None | Some b \<Rightarrow> b p)"

definition get_prop :: "image \<Rightarrow> string \<Rightarrow> int option" where
  "get_prop img k = map_of (props img) k"

subsection \<open>Image operations of the platform\<close>

text \<open>
  A number used as an operand (\<^verbatim>\<open>image.multiply(0.02)\<close>) is promoted to a constant
  image: one band, the same value at every pixel, nothing masked.
\<close>

definition image_constant :: "real \<Rightarrow> image" where
  "image_constant c = \<lparr>bands = [(''constant'', \<lambda>p. Some c)], props = []\<rparr>"

text \<open>A binary operation has a value exactly where both operands are unmasked.\<close>

definition lift2 :: "(real \<Rightarrow> real \<Rightarrow> real) \<Rightarrow> band \<Rightarrow> band \<Rightarrow> band" where
  "lift2 f a b =
     (\<lambda>p. case a p of None \<Rightarrow> None
          | Some x \<Rightarrow> (case b p of None \<Rightarrow> None | Some y \<Rightarrow> Some (f x y)))"

text \<open>
  Band matching of a binary image operation: images with the same number of bands are
  combined pairwise in band order and keep the names of the first image; an image of one
  band is combined with every band of the other, which gives the names; any other pair
  of band counts is rejected.
\<close>

definition match_bands ::
  "(band \<Rightarrow> band \<Rightarrow> band) \<Rightarrow> (string \<times> band) list \<Rightarrow> (string \<times> band) list
     \<Rightarrow> ee_error + (string \<times> band) list" where
  "match_bands g xs ys =
     (if length xs = length ys
        then Inr (map (\<lambda>(nx, my). (fst nx, g (snd nx) (snd my))) (zip xs ys))
      else if length xs = 1
        then Inr (map (\<lambda>my. (fst my, g (snd (hd xs)) (snd my))) ys)
      else if length ys = 1
        then Inr (map (\<lambda>nx. (fst nx, g (snd nx) (snd (hd ys)))) xs)
      else Inl (BandCountMismatch (length xs) (length ys)))"

text \<open>
  The result of an arithmetic operation carries no metadata properties of its operands
  (which is why the script copies the time properties back after each computation).
\<close>

definition image_binop :: "(real \<Rightarrow> real \<Rightarrow> real) \<Rightarrow> image \<Rightarrow> image \<Rightarrow> ee_error + image" where
  "image_binop f a b =
     (case match_bands (lift2 f) (bands a) (bands b) of
        Inl e \<Rightarrow> Inl e
      | Inr bs \<Rightarrow> Inr \<lparr>bands = bs, props = []\<rparr>)"

definition image_add :: "image \<Rightarrow> image \<Rightarrow> ee_error + image" where
  "image_add a b = image_binop (\<lambda>x y. x + y) a b"

definition image_subtract :: "image \<Rightarrow> image \<Rightarrow> ee_error + image" where
  "image_subtract a b = image_binop (\<lambda>x y. x - y) a b"

definition image_multiply :: "image \<Rightarrow> image \<Rightarrow> ee_error + image" where
  "image_multiply a b = image_binop (\<lambda>x y. x * y) a b"

text \<open>\<^verbatim>\<open>rename(name)\<close> with one name needs an image of one band; properties stay.\<close>

definition image_rename :: "image \<Rightarrow> string \<Rightarrow> ee_error + image" where
  "image_rename img n =
     (case bands img of
        [(old, b)] \<Rightarrow> Inr (img\<lparr>bands := [(n, b)]\<rparr>)
      | bs \<Rightarrow> Inl (RenameArity (length bs) 1))"

text \<open>
  \<^verbatim>\<open>copyProperties(source, keys)\<close>: every listed property that the source has is set on
  the destination; a listed property that the source lacks is skipped.
\<close>

fun copy_keys :: "(string \<times> int) list \<Rightarrow> (string \<times> int) list \<Rightarrow> string list \<Rightarrow> (string \<times> int) list" where
  "copy_keys dst src [] = dst"
| "copy_keys dst src (k # ks) =
     (case map_of src k of
        None \<Rightarrow> copy_keys dst src ks
      | Some v \<Rightarrow> copy_keys ((k, v) # filter (\<lambda>kv. fst kv \<noteq> k) dst) src ks)"

definition image_copyProperties :: "image \<Rightarrow> image \<Rightarrow> string list \<Rightarrow> image" where
  "image_copyProperties dst src ks = dst\<lparr>props := copy_keys (props dst) (props src) ks\<rparr>"

text \<open>
  \<^verbatim>\<open>select\<close> takes the named bands in the order asked for and keeps the properties; a
  name that matches no band is rejected.
\<close>

fun select_bands :: "(string \<times> band) list \<Rightarrow> string list \<Rightarrow> ee_error + (string \<times> band) list" where
  "select_bands bs [] = Inr []"
| "select_bands bs (n # ns) =
     (case map_of bs n of
        None \<Rightarrow> Inl (BandNotFound n)
      | Some b \<Rightarrow> and_then (select_bands bs ns) (\<lambda>rest. Inr ((n, b) # rest)))"

definition image_select :: "image \<Rightarrow> string list \<Rightarrow> ee_error + image" where
  "image_select img ns = and_then (select_bands (bands img) ns) (\<lambda>bs. Inr (img\<lparr>bands := bs\<rparr>))"

text \<open>
  \<^verbatim>\<open>bitwiseAnd\<close> works on integer pixel values (the quality bands are 8-bit integers, on
  which taking the integer part changes nothing); \<^verbatim>\<open>eq\<close> gives 1 where the operands are
  equal and 0 elsewhere.
\<close>

definition image_bitwiseAnd :: "image \<Rightarrow> image \<Rightarrow> ee_error + image" where
  "image_bitwiseAnd a b = image_binop (\<lambda>x y. of_int (\<lfloor>x\<rfloor> AND \<lfloor>y\<rfloor>)) a b"

definition image_eq :: "image \<Rightarrow> image \<Rightarrow> ee_error + image" where
  "image_eq a b = image_binop (\<lambda>x y. if x = y then 1 else 0) a b"

text \<open>
  \<^verbatim>\<open>updateMask(mask)\<close>: a pixel of the result is unmasked where it was unmasked before and
  the mask image has a value other than zero there. A mask of one band is applied to
  every band of the image. The result keeps the band names and the properties of the
  image.
\<close>

definition mask_band :: "band \<Rightarrow> band \<Rightarrow> band" where
  "mask_band b m = (\<lambda>p. case m p of None \<Rightarrow> None | Some v \<Rightarrow> if v = 0 then None else b p)"

definition image_updateMask :: "image \<Rightarrow> image \<Rightarrow> ee_error + image" where
  "image_updateMask img msk =
     (if length (bands msk) = 1
        then Inr (img\<lparr>bands := map (\<lambda>nb. (fst nb, mask_band (snd nb) (snd (hd (bands msk)))))
                                 (bands img)\<rparr>)
      else if length (bands msk) = length (bands img)
        then Inr (img\<lparr>bands := map (\<lambda>(nb, mm). (fst nb, mask_band (snd nb) (snd mm)))
                                 (zip (bands img) (bands msk))\<rparr>)
      else Inl (BandCountMismatch (length (bands img)) (length (bands msk))))"

text \<open>
  \<^verbatim>\<open>clip(roi)\<close> masks every pixel that no feature of the collection covers; names and
  properties stay.
\<close>

definition region_pixels :: "feature list \<Rightarrow> pixel list" where
  "region_pixels fc = remdups (concat (map geometry fc))"

definition image_clip :: "image \<Rightarrow> feature list \<Rightarrow> image" where
  "image_clip img fc =
     img\<lparr>bands := map (\<lambda>nb. (fst nb, \<lambda>p. if p \<in> set (region_pixels fc) then snd nb p else None))
                       (bands img)\<rparr>"

text \<open>
  \<^verbatim>\<open>round()\<close> takes every unmasked value to the nearest integer (a value halfway
  between two integers goes up here; no property below depends on that choice).
\<close>

definition image_round :: "image \<Rightarrow> image" where
  "image_round img =
     \<lparr>bands = map (\<lambda>nb. (fst nb, \<lambda>p. map_option (\<lambda>v. of_int (round v)) (snd nb p))) (bands img),
      props = []\<rparr>"

text \<open>\<^verbatim>\<open>image.date()\<close> reads \<^verbatim>\<open>system:time_start\<close>; without it there is no date.\<close>

definition image_date :: "image \<Rightarrow> ee_error + int" where
  "image_date img =
     (case get_prop img ''system:time_start'' of
        None \<Rightarrow> Inl (MissingProperty ''system:time_start'')
      | Some t \<Rightarrow> Inr t)"

subsection \<open>Collection operations of the platform\<close>

text \<open>
  \<^verbatim>\<open>ee.Filter.date(d)\<close> with a start and no end selects the range of one millisecond that
  starts at \<open>d\<close>: the elements whose \<^verbatim>\<open>system:time_start\<close> is exactly \<open>d\<close>.
\<close>

definition in_date_range :: "int \<Rightarrow> int \<Rightarrow> image \<Rightarrow> bool" where
  "in_date_range start stop img =
     (case get_prop img ''system:time_start'' of
        None \<Rightarrow> False
      | Some t \<Rightarrow> start \<le> t \<and> t < stop)"

definition filter_date_of :: "int \<Rightarrow> image list \<Rightarrow> image list" where
  "filter_date_of d coll = filter (in_date_range d (d + 1)) coll"

text \<open>\<^verbatim>\<open>first()\<close> of an empty collection is null.\<close>

definition first :: "image list \<Rightarrow> image option" where
  "first coll = (case coll of [] \<Rightarrow> None | x # _ \<Rightarrow> Some x)"

text \<open>
  A date written \<^verbatim>\<open>'2010-01-31'\<close> is midnight UTC of that day. \<open>days_from_civil\<close>
  counts the days from 1970-01-01 in the proleptic Gregorian calendar.
\<close>

definition days_from_civil :: "int \<Rightarrow> int \<Rightarrow> int \<Rightarrow> int" where
  "days_from_civil y m d =
     (let y' = (if m \<le> 2 then y - 1 else y);
          era = y' div 400;
          yoe = y' - era * 400;
          doy = (153 * (if m > 2 then m - 3 else m + 9) + 2) div 5 + d - 1;
          doe = yoe * 365 + yoe div 4 - yoe div 100 + doy
      in era * 146097 + doe - 719468)"

definition utc_millis :: "int \<times> int \<times> int \<Rightarrow> int" where
  "utc_millis ymd = (case ymd of (y, m, d) \<Rightarrow> days_from_civil y m d * 86400000)"

text \<open>
  \<^verbatim>\<open>filterDate(start, end)\<close> keeps the elements whose \<^verbatim>\<open>system:time_start\<close> is at or
  after the start and before the end: the start is inclusive, the end exclusive.
\<close>

definition collection_filterDate ::
  "int \<times> int \<times> int \<Rightarrow> int \<times> int \<times> int \<Rightarrow> image list \<Rightarrow> image list" where
  "collection_filterDate start stop coll =
     filter (in_date_range (utc_millis start) (utc_millis stop)) coll"

text \<open>
  \<^verbatim>\<open>map\<close> applies a function to every element in order; the first rejected element
  rejects the whole collection.
\<close>

fun collection_map :: "(image \<Rightarrow> ee_error + image) \<Rightarrow> image list \<Rightarrow> ee_error + image list" where
  "collection_map f [] = Inr []"
| "collection_map f (x # xs) =
     (case f x of
        Inl e \<Rightarrow> Inl e
      | Inr y \<Rightarrow> (case collection_map f xs of Inl e \<Rightarrow> Inl e | Inr ys \<Rightarrow> Inr (y # ys)))"

definition collection_select :: "image list \<Rightarrow> string list \<Rightarrow> ee_error + image list" where
  "collection_select coll ns = collection_map (\<lambda>img. image_select img ns) coll"

text \<open>\<^verbatim>\<open>merge\<close> puts the elements of the second collection after those of the first.\<close>

definition collection_merge :: "image list \<Rightarrow> image list \<Rightarrow> image list" where
  "collection_merge a b = a @ b"

text \<open>
  The reductions \<^verbatim>\<open>mean()\<close>, \<^verbatim>\<open>min()\<close> and \<^verbatim>\<open>max()\<close> of a collection work pixel by
  pixel on the stack of the unmasked values of a band; where every element is masked the
  result is masked. The result has the band names of the collection (read from its first
  element) and no time properties.
\<close>

definition stack_values :: "image list \<Rightarrow> string \<Rightarrow> pixel \<Rightarrow> real list" where
  "stack_values coll n p =
     concat (map (\<lambda>img. case pixel_at img n p of None \<Rightarrow> [] | Some v \<Rightarrow> [v]) coll)"

fun mean_of :: "real list \<Rightarrow> real option" where
  "mean_of [] = None"
| "mean_of (v # vs) = Some (sum_list (v # vs) / real (length (v # vs)))"

fun min_of :: "real list \<Rightarrow> real option" where
  "min_of [] = None"
| "min_of (v # vs) = Some (fold min vs v)"

fun max_of :: "real list \<Rightarrow> real option" where
  "max_of [] = None"
| "max_of (v # vs) = Some (fold max vs v)"

fun stdDev_of :: "real list \<Rightarrow> real option" where
  "stdDev_of [] = None"
| "stdDev_of (v # vs) =
     (let n = real (length (v # vs)); mu = sum_list (v # vs) / n
      in Some (sqrt (sum_list (map (\<lambda>x. (x - mu)\<^sup>2) (v # vs)) / n)))"

definition collection_reduce :: "(real list \<Rightarrow> real option) \<Rightarrow> image list \<Rightarrow> image" where
  "collection_reduce f coll =
     \<lparr>bands = (case coll of
                 [] \<Rightarrow> []
               | i # _ \<Rightarrow> map (\<lambda>nb. (fst nb, \<lambda>p. f (stack_values coll (fst nb) p))) (bands i)),
      props = []\<rparr>"

definition collection_mean :: "image list \<Rightarrow> image" where
  "collection_mean coll = collection_reduce mean_of coll"

definition collection_min :: "image list \<Rightarrow> image" where
  "collection_min coll = collection_reduce min_of coll"

definition collection_max :: "image list \<Rightarrow> image" where
  "collection_max coll = collection_reduce max_of coll"

text \<open>
  \<^verbatim>\<open>reduceRegion\<close> with the combined reducer of the script (mean, standard deviation,
  minimum and maximum): for every band, the four numbers over the unmasked pixels of the
  region, under the band's name with the reducer's suffix; null where the region has no
  unmasked pixel. Pixels count whole. A region of more than \<open>maxPixels\<close> pixels is
  rejected.
\<close>

definition region_values :: "band \<Rightarrow> pixel list \<Rightarrow> real list" where
  "region_values b ps = concat (map (\<lambda>p. case b p of None \<Rightarrow> [] | Some v \<Rightarrow> [v]) ps)"

definition image_reduceRegion ::
  "image \<Rightarrow> feature list \<Rightarrow> nat \<Rightarrow> ee_error + (string \<times> real option) list" where
  "image_reduceRegion img fc maxPixels =
     (if length (region_pixels fc) > maxPixels
        then Inl (TooManyPixels (length (region_pixels fc)))
      else Inr (concat (map (\<lambda>nb.
             (let vs = region_values (snd nb) (region_pixels fc)
              in [(fst nb @ ''_mean'', mean_of vs),
                  (fst nb @ ''_stdDev'', stdDev_of vs),
                  (fst nb @ ''_min'', min_of vs),
                  (fst nb @ ''_max'', max_of vs)])) (bands img))))"

section \<open>Region, quality filters and input series\<close>

text \<open>
  \<^verbatim>\<open>roi\<close>: the features of the boundary dataset whose attribute \<^verbatim>\<open>Bioma\<close> is
  \<^verbatim>\<open>Pantanal\<close>, as a collection.
\<close>

definition roi :: "datasets \<Rightarrow> feature list" where
  "roi ds = filter (\<lambda>f. map_of (attrs f) ''Bioma'' = Some ''Pantanal'') (biomas_IBGE_250mil ds)"

definition bitMask2 :: int where
  "bitMask2 = push_bit 2 1"

definition filterDay :: "image \<Rightarrow> ee_error + image" where
  "filterDay img =
     and_then (image_select img [''QC_Day'']) (\<lambda>qa.
     and_then (image_bitwiseAnd qa (image_constant (of_int bitMask2))) (\<lambda>anded.
     and_then (image_eq anded (image_constant 0)) (\<lambda>msk.
     image_updateMask img msk)))"

definition filterNight :: "image \<Rightarrow> ee_error + image" where
  "filterNight img =
     and_then (image_select img [''QC_Night'']) (\<lambda>qa.
     and_then (image_bitwiseAnd qa (image_constant (of_int bitMask2))) (\<lambda>anded.
     and_then (image_eq anded (image_constant 0)) (\<lambda>msk.
     image_updateMask img msk)))"

definition era5_mean :: "datasets \<Rightarrow> ee_error + image list" where
  "era5_mean ds =
     collection_select (collection_filterDate (2010, 1, 1) (2010, 1, 31) (ERA5_DAILY ds))
       [''mean_2m_air_temperature'']"

definition era5_min :: "datasets \<Rightarrow> ee_error + image list" where
  "era5_min ds =
     collection_select (collection_filterDate (2010, 1, 1) (2010, 1, 31) (ERA5_DAILY ds))
       [''minimum_2m_air_temperature'']"

definition era5_max :: "datasets \<Rightarrow> ee_error + image list" where
  "era5_max ds =
     collection_select (collection_filterDate (2010, 1, 1) (2010, 1, 31) (ERA5_DAILY ds))
       [''maximum_2m_air_temperature'']"

section \<open>The calibrator\<close>

text \<open>
  \<^verbatim>\<open>calibrateLSTtoTAmean(image, alpha)\<close> reads the global \<^verbatim>\<open>era5_mean\<close>; here the
  collection is the parameter \<open>era5\<close>. The script does not test the result of \<^verbatim>\<open>first()\<close>: a null
  goes on as the receiver of \<^verbatim>\<open>subtract(273.15)\<close>, where the platform rejects it (a
  required image operand is missing).
\<close>

definition calibrateLSTtoTAmean :: "image list \<Rightarrow> image \<Rightarrow> real \<Rightarrow> ee_error + image" where
  "calibrateLSTtoTAmean era5 img alpha =
     and_then (image_date img) (\<lambda>d.
     and_then (case first (filter_date_of d era5) of
                 None \<Rightarrow> Inl (NullOperand ''Image.subtract'')
               | Some e \<Rightarrow> image_subtract e (image_constant 273.15)) (\<lambda>era5SameDaymean.
     and_then (image_subtract era5SameDaymean img) (\<lambda>diff.
     and_then (image_multiply diff (image_constant alpha)) (\<lambda>scaled.
     and_then (image_add img scaled) (\<lambda>blend.
     and_then (image_rename blend ''air_temperature_mean'') (\<lambda>renamed.
     Inr (image_copyProperties renamed img [''system:time_start'', ''system:time_end''])))))))"

definition calibrateLSTtoTAmin :: "image list \<Rightarrow> image \<Rightarrow> real \<Rightarrow> ee_error + image" where
  "calibrateLSTtoTAmin era5 img alpha =
     and_then (image_date img) (\<lambda>d.
     and_then (case first (filter_date_of d era5) of
                 None \<Rightarrow> Inl (NullOperand ''Image.subtract'')
               | Some e \<Rightarrow> image_subtract e (image_constant 273.15)) (\<lambda>era5SameDaymin.
     and_then (image_subtract era5SameDaymin img) (\<lambda>diff.
     and_then (image_multiply diff (image_constant alpha)) (\<lambda>scaled.
     and_then (image_add img scaled) (\<lambda>blend.
     and_then (image_rename blend ''air_temperature_min'') (\<lambda>renamed.
     Inr (image_copyProperties renamed img [''system:time_start'', ''system:time_end''])))))))"

definition calibrateLSTtoTAmax :: "image list \<Rightarrow> image \<Rightarrow> real \<Rightarrow> ee_error + image" where
  "calibrateLSTtoTAmax era5 img alpha =
     and_then (image_date img) (\<lambda>d.
     and_then (case first (filter_date_of d era5) of
                 None \<Rightarrow> Inl (NullOperand ''Image.subtract'')
               | Some e \<Rightarrow> image_subtract e (image_constant 273.15)) (\<lambda>era5SameDaymax.
     and_then (image_subtract era5SameDaymax img) (\<lambda>diff.
     and_then (image_multiply diff (image_constant alpha)) (\<lambda>scaled.
     and_then (image_add img scaled) (\<lambda>blend.
     and_then (image_rename blend ''air_temperature_max'') (\<lambda>renamed.
     Inr (image_copyProperties renamed img [''system:time_start'', ''system:time_end''])))))))"

section \<open>The land-surface-temperature series\<close>

text \<open>The function given to the second \<^verbatim>\<open>map\<close> of \<^verbatim>\<open>day_terra\<close> (and of \<^verbatim>\<open>night_terra\<close>).\<close>

definition day_terra_rescale :: "image \<Rightarrow> ee_error + image" where
  "day_terra_rescale img =
     and_then (image_select img [''LST_Day_1km'']) (\<lambda>lst.
     and_then (image_multiply lst (image_constant 0.02)) (\<lambda>scaled.
     and_then (image_subtract scaled (image_constant 273.15)) (\<lambda>celsius.
     and_then (image_rename celsius ''LST'') (\<lambda>renamed.
     Inr (image_copyProperties renamed img [''system:time_start'', ''system:time_end''])))))"

definition night_terra_rescale :: "image \<Rightarrow> ee_error + image" where
  "night_terra_rescale img =
     and_then (image_select img [''LST_Night_1km'']) (\<lambda>lst.
     and_then (image_multiply lst (image_constant 0.02)) (\<lambda>scaled.
     and_then (image_subtract scaled (image_constant 273.15)) (\<lambda>celsius.
     and_then (image_rename celsius ''LST'') (\<lambda>renamed.
     Inr (image_copyProperties renamed img [''system:time_start'', ''system:time_end''])))))"

definition day_terra :: "datasets \<Rightarrow> ee_error + image list" where
  "day_terra ds =
     and_then (collection_select (collection_filterDate (2010, 1, 1) (2010, 1, 31) (MOD11A1 ds))
                 [''LST_Day_1km'', ''QC_Day'']) (\<lambda>selected.
     and_then (collection_map filterDay selected) (\<lambda>filtered.
     collection_map day_terra_rescale filtered))"

definition night_terra :: "datasets \<Rightarrow> ee_error + image list" where
  "night_terra ds =
     and_then (collection_select (collection_filterDate (2010, 1, 1) (2010, 1, 31) (MOD11A1 ds))
                 [''LST_Night_1km'', ''QC_Night'']) (\<lambda>selected.
     and_then (collection_map filterNight selected) (\<lambda>filtered.
     collection_map night_terra_rescale filtered))"

definition combined :: "datasets \<Rightarrow> ee_error + image list" where
  "combined ds =
     and_then (day_terra ds) (\<lambda>d.
     and_then (night_terra ds) (\<lambda>n.
     Inr (collection_merge d n)))"

definition combined_pantanal :: "datasets \<Rightarrow> ee_error + image list" where
  "combined_pantanal ds =
     and_then (combined ds) (\<lambda>c. collection_map (\<lambda>img. Inr (image_clip img (roi ds))) c)"

section \<open>Calibrated series, aggregates, statistics and exports\<close>

definition alpha :: real where
  "alpha = 0.6"

definition airTemp_pantanal_mean :: "datasets \<Rightarrow> ee_error + image list" where
  "airTemp_pantanal_mean ds =
     and_then (combined_pantanal ds) (\<lambda>c.
     and_then (era5_mean ds) (\<lambda>e.
     collection_map (\<lambda>img. calibrateLSTtoTAmean e img alpha) c))"

definition airTemp_pantanal_min :: "datasets \<Rightarrow> ee_error + image list" where
  "airTemp_pantanal_min ds =
     and_then (combined_pantanal ds) (\<lambda>c.
     and_then (era5_min ds) (\<lambda>e.
     collection_map (\<lambda>img. calibrateLSTtoTAmin e img alpha) c))"

definition airTemp_pantanal_max :: "datasets \<Rightarrow> ee_error + image list" where
  "airTemp_pantanal_max ds =
     and_then (combined_pantanal ds) (\<lambda>c.
     and_then (era5_max ds) (\<lambda>e.
     collection_map (\<lambda>img. calibrateLSTtoTAmax e img alpha) c))"

definition meanAirTemp :: "datasets \<Rightarrow> ee_error + image" where
  "meanAirTemp ds = and_then (airTemp_pantanal_mean ds) (\<lambda>s. Inr (collection_mean s))"

definition minAirTemp :: "datasets \<Rightarrow> ee_error + image" where
  "minAirTemp ds = and_then (airTemp_pantanal_min ds) (\<lambda>s. Inr (collection_min s))"

definition maxAirTemp :: "datasets \<Rightarrow> ee_error + image" where
  "maxAirTemp ds = and_then (airTemp_pantanal_max ds) (\<lambda>s. Inr (collection_max s))"

text \<open>
  The three temperature layers given to \<^verbatim>\<open>Map.addLayer\<close>, by layer name (without the
  unit that the script appends to each name).
\<close>

definition map_layers :: "datasets \<Rightarrow> (string \<times> (ee_error + image)) list" where
  "map_layers ds =
     [(''Mean Air Temperature'', meanAirTemp ds),
      (''Max Air Temperature'', maxAirTemp ds),
      (''Min Air Temperature'', minAirTemp ds)]"

definition meanAirTempImage :: "datasets \<Rightarrow> ee_error + image" where
  "meanAirTempImage ds = and_then (airTemp_pantanal_mean ds) (\<lambda>s. Inr (collection_mean s))"

definition stats :: "datasets \<Rightarrow> ee_error + (string \<times> real option) list" where
  "stats ds =
     and_then (meanAirTempImage ds) (\<lambda>m. image_reduceRegion m (roi ds) (10 ^ 13))"

text \<open>A request to \<^verbatim>\<open>Export.image.toDrive\<close>.\<close>

record export_task =
  task_image :: image
  description :: string
  folder :: string
  region :: "pixel list"
  scale :: nat
  crs :: string
  maxPixels :: nat

definition export_mean :: "datasets \<Rightarrow> ee_error + export_task" where
  "export_mean ds =
     and_then (meanAirTemp ds) (\<lambda>m.
     Inr \<lparr>task_image = image_round m, description = ''MeanAirTemp_Pantanal_Jan2020'',
          folder = ''GEE'', region = region_pixels (roi ds), scale = 1000,
          crs = ''EPSG:4326'', maxPixels = 10 ^ 13\<rparr>)"

definition export_max :: "datasets \<Rightarrow> ee_error + export_task" where
  "export_max ds =
     and_then (maxAirTemp ds) (\<lambda>m.
     Inr \<lparr>task_image = image_round m, description = ''MaxAirTemp_Pantanal_Jan2020'',
          folder = ''GEE'', region = region_pixels (roi ds), scale = 1000,
          crs = ''EPSG:4326'', maxPixels = 10 ^ 13\<rparr>)"

definition export_min :: "datasets \<Rightarrow> ee_error + export_task" where
  "export_min ds =
     and_then (minAirTemp ds) (\<lambda>m.
     Inr \<lparr>task_image = image_round m, description = ''MinAirTemp_Pantanal_Jan2020'',
          folder = ''GEE'', region = region_pixels (roi ds), scale = 1000,
          crs = ''EPSG:4326'', maxPixels = 10 ^ 13\<rparr>)"

section \<open>Auxiliary definitions and sample data\<close>

text \<open>
  The band that the three calibrators compute from a land-surface-temperature band \<open>l\<close>
  (Celsius) and a reanalysis band \<open>k\<close> (Kelvin), written out pixel by pixel.
\<close>

definition blend_band :: "band \<Rightarrow> band \<Rightarrow> real \<Rightarrow> band" where
  "blend_band l k a =
     (\<lambda>p. case l p of None \<Rightarrow> None
          | Some x \<Rightarrow> (case k p of None \<Rightarrow> None
                      | Some y \<Rightarrow> Some (x + ((y - 273.15) - x) * a)))"



text \<open>
  The inverse of the rescaling, in the words of the specification: the digital number
  that a Celsius value comes from. The script has no such function.
\<close>

definition rescale_inverse :: "real \<Rightarrow> real" where
  "rescale_inverse c = (c + 273.15) / 0.02"

text \<open>
  A sample element of \<^verbatim>\<open>MOD11A1\<close> with the four bands that the script reads, one day
  long from the time stamp \<open>t\<close>.
\<close>

definition modis_image :: "int \<Rightarrow> band \<Rightarrow> band \<Rightarrow> band \<Rightarrow> band \<Rightarrow> image" where
  "modis_image t d qd n qn =
     \<lparr>bands = [(''LST_Day_1km'', d), (''QC_Day'', qd), (''LST_Night_1km'', n), (''QC_Night'', qn)],
      props = [(''system:time_start'', t), (''system:time_end'', t + 86400000)]\<rparr>"

text \<open>
  A sample element of \<^verbatim>\<open>ERA5/DAILY\<close> with the three temperature bands (Kelvin), one day
  long from the time stamp \<open>t\<close>.
\<close>

definition era5_image :: "int \<Rightarrow> band \<Rightarrow> band \<Rightarrow> band \<Rightarrow> image" where
  "era5_image t mean mn mx =
     \<lparr>bands = [(''mean_2m_air_temperature'', mean), (''minimum_2m_air_temperature'', mn),
               (''maximum_2m_air_temperature'', mx)],
      props = [(''system:time_start'', t), (''system:time_end'', t + 86400000)]\<rparr>"

text \<open>Sample boundaries: two features tagged Pantanal and one tagged Cerrado.\<close>

definition pantanal :: feature where
  "pantanal = \<lparr>attrs = [(''Bioma'', ''Pantanal'')], geometry = [(0, 0), (1, 0)]\<rparr>"

definition pantanal_south :: feature where
  "pantanal_south = \<lparr>attrs = [(''Bioma'', ''Pantanal'')], geometry = [(1, 0), (2, 0)]\<rparr>"

definition cerrado :: feature where
  "cerrado = \<lparr>attrs = [(''Bioma'', ''Cerrado'')], geometry = [(5, 5)]\<rparr>"

text \<open>The time stamps of the elements of a series, in order.\<close>

definition series_dates :: "ee_error + image list \<Rightarrow> ee_error + int option list" where
  "series_dates r =
     (case r of Inl e \<Rightarrow> Inl e
      | Inr xs \<Rightarrow> Inr (map (\<lambda>img. get_prop img ''system:time_start'') xs))"

text \<open>
  Sample datasets with one observation on 2010-01-30 and one on 2010-01-31, in the
  land-surface-temperature collection and in the reanalysis collection.
\<close>

definition last_days :: datasets where
  "last_days =
     \<lparr>biomas_IBGE_250mil = [pantanal],
      MOD11A1 = [modis_image (utc_millis (2010, 1, 30)) (\<lambda>p. Some 15000) (\<lambda>p. Some 0)
                   (\<lambda>p. Some 14500) (\<lambda>p. Some 0),
                 modis_image (utc_millis (2010, 1, 31)) (\<lambda>p. Some 15000) (\<lambda>p. Some 0)
                   (\<lambda>p. Some 14500) (\<lambda>p. Some 0)],
      ERA5_DAILY = [era5_image (utc_millis (2010, 1, 30)) (\<lambda>p. Some 300.15) (\<lambda>p. Some 295.15)
                      (\<lambda>p. Some 305.15),
                    era5_image (utc_millis (2010, 1, 31)) (\<lambda>p. Some 300.15) (\<lambda>p. Some 295.15)
                      (\<lambda>p. Some 305.15)]\<rparr>"

text \<open>
  The region selector in the words of the specification: the single boundary whose
  attribute equals the name, and a failure when no boundary or more than one matches.
\<close>

datatype region_error = RegionNotFound | RegionAmbiguous

definition select_region :: "string \<Rightarrow> feature list \<Rightarrow> region_error + feature" where
  "select_region name fs =
     (case filter (\<lambda>f. map_of (attrs f) ''Bioma'' = Some name) fs of
        [] \<Rightarrow> Inl RegionNotFound
      | [f] \<Rightarrow> Inr f
      | _ \<Rightarrow> Inl RegionAmbiguous)"

text \<open>Datasets that hold boundaries only.\<close>

definition boundaries :: "feature list \<Rightarrow> datasets" where
  "boundaries fs = \<lparr>biomas_IBGE_250mil = fs, MOD11A1 = [], ERA5_DAILY = []\<rparr>"

text \<open>The value of a pixel of a band in the result of an operation that can be rejected.\<close>

definition result_pixel :: "ee_error + image \<Rightarrow> string \<Rightarrow> pixel \<Rightarrow> ee_error + real option" where
  "result_pixel r n p = (case r of Inl e \<Rightarrow> Inl e | Inr img \<Rightarrow> Inr (pixel_at img n p))"

text \<open>
  More sample rasters: a one-day land-surface-temperature raster of 20 degrees Celsius
  stamped \<open>t\<close>, and a reanalysis raster stamped 0 that is masked at the pixel \<open>(1, 0)\<close>.
\<close>

definition lst_at :: "int \<Rightarrow> image" where
  "lst_at t = \<lparr>bands = [(''LST'', \<lambda>p. Some 20)],
             props = [(''system:time_start'', t), (''system:time_end'', t + 86400000)]\<rparr>"

definition era_gap :: image where
  "era_gap = \<lparr>bands = [(''mean_2m_air_temperature'', \<lambda>p. if p = (1, 0) then None else Some 303.15)],
              props = [(''system:time_start'', 0)]\<rparr>"

text \<open>
  Sample datasets of a run: the boundaries of Pantanal (the pixels \<open>(0, 0)\<close> and
  \<open>(1, 0)\<close>) and of Cerrado, one observation of 2010-01-15 whose day quality flag has
  bit 2 set at the pixel \<open>(1, 0)\<close>, and the reanalysis raster of the same day.
\<close>

definition january :: datasets where
  "january =
     \<lparr>biomas_IBGE_250mil = [pantanal, cerrado],
      MOD11A1 = [modis_image (utc_millis (2010, 1, 15)) (\<lambda>p. Some 15000)
                   (\<lambda>p. if p = (1, 0) then Some 4 else Some 0)
                   (\<lambda>p. Some 14500) (\<lambda>p. Some 0)],
      ERA5_DAILY = [era5_image (utc_millis (2010, 1, 15)) (\<lambda>p. Some 300.15) (\<lambda>p. Some 295.15)
                      (\<lambda>p. Some 305.15)]\<rparr>"

text \<open>
  The naming scheme of the exports in the words of the specification,
  \<^verbatim>\<open><Kind>_<Region>_<Period>\<close>, with the period of a date written as the script writes
  periods: the month's three letters and the year's four digits.
\<close>

definition month_abbrev :: "int \<Rightarrow> string" where
  "month_abbrev m =
     (if 1 \<le> m \<and> m \<le> 12
      then [''Jan'', ''Feb'', ''Mar'', ''Apr'', ''May'', ''Jun'',
            ''Jul'', ''Aug'', ''Sep'', ''Oct'', ''Nov'', ''Dec''] ! nat (m - 1)
      else ''???'')"

definition year_digits :: "int \<Rightarrow> string" where
  "year_digits y = map (\<lambda>k. char_of (48 + (y div 10 ^ k) mod 10)) [3, 2, 1, 0]"

definition period_label :: "int \<times> int \<times> int \<Rightarrow> string" where
  "period_label ymd = (case ymd of (y, m, d) \<Rightarrow> month_abbrev m @ year_digits y)"

definition scheme_name :: "string \<Rightarrow> string \<Rightarrow> string \<Rightarrow> string" where
  "scheme_name kind region_name period = kind @ ''_'' @ region_name @ ''_'' @ period"

text \<open>An image is masked at a pixel when every band of it is.\<close>

definition masked_at :: "image \<Rightarrow> pixel \<Rightarrow> bool" where
  "masked_at img p = list_all (\<lambda>nb. snd nb p = None) (bands img)"

text \<open>
  The mask that the quality filters compute from a quality band: 1 where bit 2 of the
  flag is clear, 0 where it is set, masked where the flag is.
\<close>

definition quality_band :: "band \<Rightarrow> band" where
  "quality_band qa = (\<lambda>p. map_option (\<lambda>x. if bit \<lfloor>x\<rfloor> 2 then 0 else 1) (qa p))"



section \<open>Verified properties\<close>

subsection \<open>The linear blend of the calibrator\<close>

lemma blend_band_lift2:
  "lift2 (\<lambda>x y. x + y) l
     (lift2 (\<lambda>x y. x * y)
        (lift2 (\<lambda>x y. x - y) (lift2 (\<lambda>x y. x - y) k (\<lambda>p. Some c)) l)
        (\<lambda>p. Some a)) =
    (\<lambda>p. case l p of None \<Rightarrow> None
          | Some x \<Rightarrow> (case k p of None \<Rightarrow> None
                      | Some y \<Rightarrow> Some (x + ((y - c) - x) * a)))"
  by (rule ext) (simp add: lift2_def split: option.splits)

lemma binop_single:
  "bands a = [(n, x)] \<Longrightarrow> bands b = [(m, y)] \<Longrightarrow>
   image_binop f a b = Inr \<lparr>bands = [(n, lift2 f x y)], props = []\<rparr>"
  by (simp add: image_binop_def match_bands_def)

lemma calibrate_mean_single:
  assumes "bands img = [(n, l)]"
    and "get_prop img ''system:time_start'' = Some d"
    and "first (filter_date_of d era5) = Some e"
    and "bands e = [(m, k)]"
  shows "calibrateLSTtoTAmean era5 img a =
     Inr \<lparr>bands = [(''air_temperature_mean'', blend_band l k a)],
          props = copy_keys [] (props img) [''system:time_start'', ''system:time_end'']\<rparr>"
proof -
  have b: "(\<lambda>p. case l p of None \<Rightarrow> None
          | Some x \<Rightarrow> (case k p of None \<Rightarrow> None
                      | Some y \<Rightarrow> Some (x + ((y - 5463 / 20) - x) * a))) = blend_band l k a"
    by (rule ext) (simp add: blend_band_def split: option.splits)
  show ?thesis
    using assms
    by (simp add: calibrateLSTtoTAmean_def and_then_def image_date_def image_subtract_def
        image_multiply_def image_add_def binop_single image_constant_def image_rename_def
        image_copyProperties_def blend_band_lift2 b del: copy_keys.simps)
qed

lemma calibrate_min_single:
  assumes "bands img = [(n, l)]"
    and "get_prop img ''system:time_start'' = Some d"
    and "first (filter_date_of d era5) = Some e"
    and "bands e = [(m, k)]"
  shows "calibrateLSTtoTAmin era5 img a =
     Inr \<lparr>bands = [(''air_temperature_min'', blend_band l k a)],
          props = copy_keys [] (props img) [''system:time_start'', ''system:time_end'']\<rparr>"
proof -
  have b: "(\<lambda>p. case l p of None \<Rightarrow> None
          | Some x \<Rightarrow> (case k p of None \<Rightarrow> None
                      | Some y \<Rightarrow> Some (x + ((y - 5463 / 20) - x) * a))) = blend_band l k a"
    by (rule ext) (simp add: blend_band_def split: option.splits)
  show ?thesis
    using assms
    by (simp add: calibrateLSTtoTAmin_def and_then_def image_date_def image_subtract_def
        image_multiply_def image_add_def binop_single image_constant_def image_rename_def
        image_copyProperties_def blend_band_lift2 b del: copy_keys.simps)
qed

lemma calibrate_max_single:
  assumes "bands img = [(n, l)]"
    and "get_prop img ''system:time_start'' = Some d"
    and "first (filter_date_of d era5) = Some e"
    and "bands e = [(m, k)]"
  shows "calibrateLSTtoTAmax era5 img a =
     Inr \<lparr>bands = [(''air_temperature_max'', blend_band l k a)],
          props = copy_keys [] (props img) [''system:time_start'', ''system:time_end'']\<rparr>"
proof -
  have b: "(\<lambda>p. case l p of None \<Rightarrow> None
          | Some x \<Rightarrow> (case k p of None \<Rightarrow> None
                      | Some y \<Rightarrow> Some (x + ((y - 5463 / 20) - x) * a))) = blend_band l k a"
    by (rule ext) (simp add: blend_band_def split: option.splits)
  show ?thesis
    using assms
    by (simp add: calibrateLSTtoTAmax_def and_then_def image_date_def image_subtract_def
        image_multiply_def image_add_def binop_single image_constant_def image_rename_def
        image_copyProperties_def blend_band_lift2 b del: copy_keys.simps)
qed




subsection \<open>Rescaling of digital numbers\<close>

lemma select_one:
  "map_of (bands img) n = Some b \<Longrightarrow> image_select img [n] = Inr (img\<lparr>bands := [(n, b)]\<rparr>)"
  by (simp add: image_select_def and_then_def)

lemma binop_constant:
  "bands a = [(n, x)] \<Longrightarrow>
   image_binop f a (image_constant c) = Inr \<lparr>bands = [(n, lift2 f x (\<lambda>p. Some c))], props = []\<rparr>"
  by (simp add: binop_single image_constant_def)

lemma rescale_band:
  "lift2 (\<lambda>x y. x - y) (lift2 (\<lambda>x y. x * y) b (\<lambda>p. Some c)) (\<lambda>p. Some k)
     = (\<lambda>p. map_option (\<lambda>n. n * c - k) (b p))"
  by (rule ext) (simp add: lift2_def split: option.splits)

lemma day_terra_rescale_band:
  assumes "map_of (bands img) ''LST_Day_1km'' = Some b"
  shows "day_terra_rescale img =
     Inr \<lparr>bands = [(''LST'', \<lambda>p. map_option (\<lambda>n. n * 0.02 - 273.15) (b p))],
          props = copy_keys [] (props img) [''system:time_start'', ''system:time_end'']\<rparr>"
  using assms
  by (simp add: day_terra_rescale_def select_one and_then_def image_multiply_def
      image_subtract_def binop_constant image_rename_def image_copyProperties_def rescale_band
      del: copy_keys.simps)

lemma night_terra_rescale_band:
  assumes "map_of (bands img) ''LST_Night_1km'' = Some b"
  shows "night_terra_rescale img =
     Inr \<lparr>bands = [(''LST'', \<lambda>p. map_option (\<lambda>n. n * 0.02 - 273.15) (b p))],
          props = copy_keys [] (props img) [''system:time_start'', ''system:time_end'']\<rparr>"
  using assms
  by (simp add: night_terra_rescale_def select_one and_then_def image_multiply_def
      image_subtract_def binop_constant image_rename_def image_copyProperties_def rescale_band
      del: copy_keys.simps)

text \<open>
  Claim C3. For every digital number \<open>n\<close> of the day band (and of the night band), the
  extractor's rescaling gives \<open>n * 0.02 - 273.15\<close> in the band \<^verbatim>\<open>LST\<close>; no digital number
  is excluded. The inverse of the rescaling takes that value back to \<open>n\<close> (exactly, in
  real arithmetic, hence within every tolerance).
\<close>

theorem rescale_celsius:
  "(map_of (bands img) ''LST_Day_1km'' = Some b \<and> b p = Some n \<longrightarrow>
      (\<exists>out. day_terra_rescale img = Inr out \<and>
             pixel_at out ''LST'' p = Some (n * 0.02 - 273.15))) \<and>
   (map_of (bands img) ''LST_Night_1km'' = Some b \<and> b p = Some n \<longrightarrow>
      (\<exists>out. night_terra_rescale img = Inr out \<and>
             pixel_at out ''LST'' p = Some (n * 0.02 - 273.15))) \<and>
   rescale_inverse (n * 0.02 - 273.15) = n"
  by (simp add: day_terra_rescale_band night_terra_rescale_band pixel_at_def rescale_inverse_def)

theorem rescale_celsius_witness:
  "(\<exists>out. day_terra_rescale (modis_image 0 (\<lambda>p. Some 15000) (\<lambda>p. Some 0) (\<lambda>p. Some 14500) (\<lambda>p. Some 0)) = Inr out \<and>
             pixel_at out ''LST'' (0, 0) = Some 26.85) \<and>
   (\<exists>out. night_terra_rescale (modis_image 0 (\<lambda>p. Some 15000) (\<lambda>p. Some 0) (\<lambda>p. Some 14500) (\<lambda>p. Some 0)) = Inr out \<and>
             pixel_at out ''LST'' (0, 0) = Some 16.85) \<and>
   rescale_inverse 26.85 = 15000"
  using rescale_celsius [where img = "modis_image 0 (\<lambda>p. Some 15000) (\<lambda>p. Some 0) (\<lambda>p. Some 14500) (\<lambda>p. Some 0)"
      and b = "\<lambda>p. Some 15000" and p = "(0, 0)" and n = 15000]
    rescale_celsius [where img = "modis_image 0 (\<lambda>p. Some 15000) (\<lambda>p. Some 0) (\<lambda>p. Some 14500) (\<lambda>p. Some 0)"
      and b = "\<lambda>p. Some 14500" and p = "(0, 0)" and n = 14500]
  by (simp add: modis_image_def)

subsection \<open>The date window\<close>

lemma utc_2010_01_01: "utc_millis (2010, 1, 1) = 1262304000000"
  by (simp add: utc_millis_def days_from_civil_def)

lemma utc_2010_01_30: "utc_millis (2010, 1, 30) = 1264809600000"
  by (simp add: utc_millis_def days_from_civil_def)

lemma utc_2010_01_31: "utc_millis (2010, 1, 31) = 1264896000000"
  by (simp add: utc_millis_def days_from_civil_def)

lemmas run_defs = series_dates_def collection_select_def collection_filterDate_def
    in_date_range_def get_prop_def utc_2010_01_01 utc_2010_01_30 utc_2010_01_31
    image_select_def and_then_def filterDay_def filterNight_def image_bitwiseAnd_def image_eq_def
    image_updateMask_def image_binop_def match_bands_def image_constant_def day_terra_rescale_def
    night_terra_rescale_def image_multiply_def
    image_subtract_def image_rename_def image_copyProperties_def modis_image_def era5_image_def

text \<open>
  Claim C7. The end of the window of \<^verbatim>\<open>filterDate\<close> is exclusive: of two observations
  stamped 2010-01-30 and 2010-01-31, each of the five series of the script (the three
  reanalysis series, the day series and the night series) holds the one of 2010-01-30
  only. The observation dated 2010-01-31 is not in the series.
\<close>

theorem window_drops_last_day:
  "series_dates (era5_mean last_days) = Inr [Some (utc_millis (2010, 1, 30))] \<and>
   series_dates (era5_min last_days) = Inr [Some (utc_millis (2010, 1, 30))] \<and>
   series_dates (era5_max last_days) = Inr [Some (utc_millis (2010, 1, 30))] \<and>
   series_dates (day_terra last_days) = Inr [Some (utc_millis (2010, 1, 30))] \<and>
   series_dates (night_terra last_days) = Inr [Some (utc_millis (2010, 1, 30))] \<and>
   map (\<lambda>img. get_prop img ''system:time_start'') (ERA5_DAILY last_days)
     = [Some (utc_millis (2010, 1, 30)), Some (utc_millis (2010, 1, 31))]"
  by (simp add: era5_mean_def era5_min_def era5_max_def day_terra_def night_terra_def
      last_days_def run_defs)

lemma filterDate_window:
  "set (collection_filterDate (2010, 1, 1) (2010, 1, 31) coll) =
     {img \<in> set coll. \<exists>t. get_prop img ''system:time_start'' = Some t \<and>
                             1262304000000 \<le> t \<and> t < 1264896000000}"
  by (auto simp: collection_filterDate_def in_date_range_def utc_2010_01_01 utc_2010_01_31
      split: option.splits)

subsection \<open>The region selector\<close>

text \<open>
  Claim C5, as stated, fails: with two boundaries tagged Pantanal the selector returns
  both, and with none it returns the empty collection, where the selector of the
  specification fails.
\<close>

theorem roi_unchecked_counterexample:
  "roi (boundaries [pantanal, cerrado, pantanal_south]) = [pantanal, pantanal_south] \<and>
   select_region ''Pantanal'' [pantanal, cerrado, pantanal_south] = Inl RegionAmbiguous \<and>
   roi (boundaries [cerrado]) = [] \<and>
   select_region ''Pantanal'' [cerrado] = Inl RegionNotFound"
  by (simp add: roi_def boundaries_def select_region_def pantanal_def cerrado_def pantanal_south_def)

text \<open>
  Claim C5, amended. The region selector returns the boundaries of the dataset whose
  attribute \<^verbatim>\<open>Bioma\<close> is \<^verbatim>\<open>Pantanal\<close>, all of them and no others, and never fails. Its
  result is one region exactly when the selector of the specification succeeds, and it is
  that region; it is empty exactly when no boundary matches, and has several regions
  exactly when the name is ambiguous.
\<close>

theorem roi_all_matches:
  "set (roi ds) = {f \<in> set (biomas_IBGE_250mil ds). map_of (attrs f) ''Bioma'' = Some ''Pantanal''} \<and>
   (roi ds = [f]) = (select_region ''Pantanal'' (biomas_IBGE_250mil ds) = Inr f) \<and>
   (roi ds = []) = (select_region ''Pantanal'' (biomas_IBGE_250mil ds) = Inl RegionNotFound) \<and>
   (length (roi ds) > 1) = (select_region ''Pantanal'' (biomas_IBGE_250mil ds) = Inl RegionAmbiguous)"
  by (auto simp: roi_def select_region_def split: list.splits)

theorem roi_all_matches_witness:
  "roi (boundaries [pantanal, cerrado]) = [pantanal] \<and>
   select_region ''Pantanal'' [pantanal, cerrado] = Inr pantanal"
  using roi_all_matches [of "boundaries [pantanal, cerrado]" pantanal]
  by (simp add: roi_def boundaries_def pantanal_def cerrado_def)

subsection \<open>Aggregation of a series of one element\<close>

lemma reduce_single_value:
  "mean_of (case v of None \<Rightarrow> [] | Some x \<Rightarrow> [x]) = v"
  "min_of (case v of None \<Rightarrow> [] | Some x \<Rightarrow> [x]) = v"
  "max_of (case v of None \<Rightarrow> [] | Some x \<Rightarrow> [x]) = v"
  by (cases v; simp)+

lemma pixel_at_band:
  "distinct (map fst (bands img)) \<Longrightarrow> (n, b) \<in> set (bands img) \<Longrightarrow> pixel_at img n p = b p"
  by (simp add: pixel_at_def)

lemma reduce_single:
  assumes "distinct (map fst (bands img))"
    and "\<And>v. f (case v of None \<Rightarrow> [] | Some x \<Rightarrow> [x]) = v"
  shows "bands (collection_reduce f [img]) = bands img"
proof -
  have "(fst nb, \<lambda>p. f (stack_values [img] (fst nb) p)) = nb" if "nb \<in> set (bands img)" for nb
  proof -
    have "pixel_at img (fst nb) p = snd nb p" for p
      using pixel_at_band [OF assms(1), of "fst nb" "snd nb" p] that by simp
    then have "(\<lambda>p. f (stack_values [img] (fst nb) p)) = snd nb"
      by (intro ext) (simp add: stack_values_def assms(2))
    then show ?thesis by (simp add: prod_eq_iff)
  qed
  then show ?thesis
    by (simp add: collection_reduce_def map_idI)
qed

text \<open>
  Claim C9. The pixelwise mean, minimum and maximum of a series of one element have the
  bands of that element: the same names, and at every pixel the same value or the same
  mask. (Band names of an image are distinct.)
\<close>

theorem single_element_aggregate:
  assumes "distinct (map fst (bands img))"
  shows "bands (collection_mean [img]) = bands img \<and>
         bands (collection_min [img]) = bands img \<and>
         bands (collection_max [img]) = bands img"
  using assms
  by (simp add: collection_mean_def collection_min_def collection_max_def reduce_single
      reduce_single_value)

theorem single_element_aggregate_witness:
  "distinct (map fst (bands (lst_at 0))) \<and>
   bands (collection_mean [lst_at 0]) = bands (lst_at 0) \<and>
   pixel_at (collection_min [lst_at 0]) ''LST'' (0, 0) = Some 20 \<and>
   pixel_at (collection_max [lst_at 0]) ''LST'' (0, 0) = Some 20"
proof -
  have d: "distinct (map fst (bands (lst_at 0)))" by (simp add: lst_at_def)
  from single_element_aggregate [OF d] d show ?thesis
    by (simp add: pixel_at_def lst_at_def)
qed

subsection \<open>A date without reanalysis raster\<close>





subsection \<open>Mask, band and properties of the calibrated raster\<close>

lemma copy_time_keys:
  "map_of (copy_keys [] src [''system:time_start'', ''system:time_end'']) key =
     (if key = ''system:time_start'' \<or> key = ''system:time_end'' then map_of src key else None)"
  by (simp split: option.splits)

lemma blend_band_defined:
  "(\<exists>y. blend_band l k a p = Some y) = ((\<exists>y. l p = Some y) \<and> (\<exists>y. k p = Some y))"
  by (simp add: blend_band_def split: option.splits)

text \<open>
  Claim C10, amended. For a one-band land-surface-temperature raster and a one-band
  reanalysis raster of the same time stamp, each calibrator returns a raster with the one
  band of its kind, unmasked at exactly the pixels where the land-surface-temperature
  raster and the reanalysis raster are both unmasked, and with the properties
  \<^verbatim>\<open>system:time_start\<close> and \<^verbatim>\<open>system:time_end\<close> of the input and no others.
\<close>

theorem calibrate_mask_band_props:
  assumes "bands img = [(n, l)]"
    and "get_prop img ''system:time_start'' = Some d"
    and "first (filter_date_of d era5) = Some e"
    and "bands e = [(m, k)]"
  shows "\<exists>out_mean out_min out_max.
           calibrateLSTtoTAmean era5 img a = Inr out_mean \<and>
           calibrateLSTtoTAmin era5 img a = Inr out_min \<and>
           calibrateLSTtoTAmax era5 img a = Inr out_max \<and>
           map fst (bands out_mean) = [''air_temperature_mean''] \<and>
           map fst (bands out_min) = [''air_temperature_min''] \<and>
           map fst (bands out_max) = [''air_temperature_max''] \<and>
           (\<forall>p. (pixel_at out_mean ''air_temperature_mean'' p \<noteq> None) = (l p \<noteq> None \<and> k p \<noteq> None)) \<and>
           (\<forall>p. (pixel_at out_min ''air_temperature_min'' p \<noteq> None) = (l p \<noteq> None \<and> k p \<noteq> None)) \<and>
           (\<forall>p. (pixel_at out_max ''air_temperature_max'' p \<noteq> None) = (l p \<noteq> None \<and> k p \<noteq> None)) \<and>
           (\<forall>out \<in> {out_mean, out_min, out_max}. \<forall>key. get_prop out key =
               (if key = ''system:time_start'' \<or> key = ''system:time_end''
                then get_prop img key else None))"
  unfolding calibrate_mean_single [OF assms] calibrate_min_single [OF assms]
    calibrate_max_single [OF assms]
  by (simp add: pixel_at_def get_prop_def copy_time_keys blend_band_defined
      del: copy_keys.simps)

theorem calibrate_mask_band_props_witness:
  "\<exists>out. calibrateLSTtoTAmean [era_gap] (lst_at 0) 0.6 = Inr out \<and>
      map fst (bands out) = [''air_temperature_mean''] \<and>
      pixel_at out ''air_temperature_mean'' (0, 0) \<noteq> None \<and>
      get_prop out ''system:time_start'' = Some 0 \<and>
      get_prop out ''system:time_end'' = Some 86400000 \<and>
      get_prop out ''system:index'' = None"
proof -
  have h1: "bands (lst_at 0) = [(''LST'', \<lambda>p. Some 20)]"
    by (simp add: lst_at_def)
  have h2: "get_prop (lst_at 0) ''system:time_start'' = Some 0"
    by (simp add: lst_at_def get_prop_def)
  have h3: "first (filter_date_of 0 [era_gap]) = Some era_gap"
    by (simp add: first_def filter_date_of_def in_date_range_def get_prop_def era_gap_def)
  have h4: "bands era_gap =
      [(''mean_2m_air_temperature'', \<lambda>p. if p = (1, 0) then None else Some 303.15)]"
    by (simp add: era_gap_def)
  from calibrate_mask_band_props [OF h1 h2 h3 h4, of "0.6"]
  obtain out where o: "calibrateLSTtoTAmean [era_gap] (lst_at 0) 0.6 = Inr out"
    and n: "map fst (bands out) = [''air_temperature_mean'']"
    and m: "\<forall>p. (pixel_at out ''air_temperature_mean'' p \<noteq> None) =
              ((Some (20::real)) \<noteq> None \<and> (if p = (1, 0) then None else Some (303.15::real)) \<noteq> None)"
    and k: "\<forall>key. get_prop out key =
               (if key = ''system:time_start'' \<or> key = ''system:time_end''
                then get_prop (lst_at 0) key else None)"
    by auto
  from m [rule_format, of "(0, 0)"] have "pixel_at out ''air_temperature_mean'' (0, 0) \<noteq> None"
    by simp
  moreover from k have "get_prop out ''system:time_start'' = Some 0"
    and "get_prop out ''system:time_end'' = Some 86400000"
    and "get_prop out ''system:index'' = None"
    by (simp_all add: lst_at_def get_prop_def)
  ultimately show ?thesis using o n by simp
qed

text \<open>
  Claim C10, as stated, fails: where the reanalysis raster is masked, the calibrated
  raster is masked although the land-surface-temperature raster has a value.
\<close>

theorem calibrate_mask_counterexample:
  "pixel_at (lst_at 0) ''LST'' (1, 0) = Some 20 \<and>
   result_pixel (calibrateLSTtoTAmean [era_gap] (lst_at 0) 0.6) ''air_temperature_mean'' (1, 0)
     = Inr None"
  by (simp add: result_pixel_def pixel_at_def lst_at_def era_gap_def calibrateLSTtoTAmean_def
      and_then_def image_date_def first_def get_prop_def filter_date_of_def in_date_range_def
      image_subtract_def image_multiply_def image_add_def image_binop_def match_bands_def
      image_constant_def image_rename_def image_copyProperties_def lift2_def)

subsection \<open>A sample run; names of the exports\<close>

lemma utc_2010_01_15: "utc_millis (2010, 1, 15) = 1263513600000"
  by (simp add: utc_millis_def days_from_civil_def)

lemma period_2010: "period_label (2010, 1, 1) = ''Jan2010''"
  by (simp add: period_label_def month_abbrev_def year_digits_def char_of_def)

lemmas pipeline_defs =
    airTemp_pantanal_mean_def airTemp_pantanal_min_def airTemp_pantanal_max_def
    combined_pantanal_def combined_def day_terra_def night_terra_def
    era5_mean_def era5_min_def era5_max_def collection_merge_def image_clip_def roi_def
    region_pixels_def calibrateLSTtoTAmean_def calibrateLSTtoTAmin_def calibrateLSTtoTAmax_def
    image_date_def first_def filter_date_of_def image_add_def alpha_def
    pantanal_def cerrado_def utc_2010_01_15 bitMask2_def

lemma january_stats:
  "stats january = Inr [(''air_temperature_mean_mean'', Some 23.94),
                        (''air_temperature_mean_stdDev'', Some 1),
                        (''air_temperature_mean_min'', Some 22.94),
                        (''air_temperature_mean_max'', Some 24.94)]"
  by (simp add: stats_def meanAirTempImage_def image_reduceRegion_def region_values_def
      january_def pipeline_defs run_defs
      collection_mean_def collection_reduce_def stack_values_def pixel_at_def lift2_def mask_band_def)

lemmas eval_defs = january_def pipeline_defs run_defs collection_mean_def collection_min_def
  collection_max_def collection_reduce_def stack_values_def pixel_at_def lift2_def mask_band_def

text \<open>
  Claim C8. The three exports are named by the scheme with the region Pantanal, but the
  period in the names is \<^verbatim>\<open>Jan2020\<close>, while the window of the run starts on 2010-01-01,
  whose period is \<^verbatim>\<open>Jan2010\<close>.
\<close>

theorem export_names_say_2020:
  "map_sum id description (export_mean january) = Inr ''MeanAirTemp_Pantanal_Jan2020'' \<and>
   map_sum id description (export_max january) = Inr ''MaxAirTemp_Pantanal_Jan2020'' \<and>
   map_sum id description (export_min january) = Inr ''MinAirTemp_Pantanal_Jan2020'' \<and>
   scheme_name ''MeanAirTemp'' ''Pantanal'' (period_label (2010, 1, 1)) = ''MeanAirTemp_Pantanal_Jan2010'' \<and>
   scheme_name ''MaxAirTemp'' ''Pantanal'' (period_label (2010, 1, 1)) = ''MaxAirTemp_Pantanal_Jan2010'' \<and>
   scheme_name ''MinAirTemp'' ''Pantanal'' (period_label (2010, 1, 1)) = ''MinAirTemp_Pantanal_Jan2010''"
  by (simp add: export_mean_def export_max_def export_min_def meanAirTemp_def maxAirTemp_def
      minAirTemp_def scheme_name_def period_2010 eval_defs)

subsection \<open>Rounding and statistics\<close>

lemma map_of_map_bands:
  "map_of (map (\<lambda>nb. (fst nb, g (snd nb))) bs) n = map_option g (map_of bs n)"
  by (induction bs) auto

lemma pixel_at_round:
  "pixel_at (image_round m) n p = map_option (\<lambda>v. of_int (round v)) (pixel_at m n p)"
  using map_of_map_bands [of "\<lambda>b p. map_option (\<lambda>v. real_of_int (round v)) (b p)" "bands m" n]
  by (cases "map_of (bands m) n") (simp_all add: pixel_at_def image_round_def)

text \<open>
  Claim C6. The regional statistics are the reduction of the monthly mean aggregate as
  the collection's \<^verbatim>\<open>mean()\<close> gives it, without rounding; it is the raster of the map
  layer. Each of the three exports takes the rounded aggregate of its kind, whose values
  are the nearest integers of the aggregate's values; the map layers take the aggregates
  themselves.
\<close>

theorem rounding_for_export_only:
  "meanAirTempImage ds = map_sum id collection_mean (airTemp_pantanal_mean ds) \<and>
   (\<forall>m. meanAirTempImage ds = Inr m \<longrightarrow>
        meanAirTemp ds = Inr m \<and>
        stats ds = image_reduceRegion m (roi ds) (10 ^ 13) \<and>
        map_sum id task_image (export_mean ds) = Inr (image_round m)) \<and>
   (\<forall>m. maxAirTemp ds = Inr m \<longrightarrow> map_sum id task_image (export_max ds) = Inr (image_round m)) \<and>
   (\<forall>m. minAirTemp ds = Inr m \<longrightarrow> map_sum id task_image (export_min ds) = Inr (image_round m)) \<and>
   map snd (map_layers ds) = [meanAirTemp ds, maxAirTemp ds, minAirTemp ds] \<and>
   (\<forall>m n p. pixel_at (image_round m) n p = map_option (\<lambda>v. of_int (round v)) (pixel_at m n p))"
  by (simp add: pixel_at_round meanAirTempImage_def meanAirTemp_def stats_def export_mean_def
      export_max_def export_min_def map_layers_def and_then_def split: sum.splits)

theorem rounding_for_export_only_witness:
  "\<exists>m. meanAirTempImage january = Inr m \<and>
       pixel_at m ''air_temperature_mean'' (0, 0) = Some 24.94 \<and>
       pixel_at m ''air_temperature_mean'' (1, 0) = Some 22.94 \<and>
       stats january = image_reduceRegion m (roi january) (10 ^ 13) \<and>
       stats january = Inr [(''air_temperature_mean_mean'', Some 23.94),
                            (''air_temperature_mean_stdDev'', Some 1),
                            (''air_temperature_mean_min'', Some 22.94),
                            (''air_temperature_mean_max'', Some 24.94)] \<and>
       map_sum id task_image (export_mean january) = Inr (image_round m) \<and>
       pixel_at (image_round m) ''air_temperature_mean'' (0, 0) = Some 25 \<and>
       pixel_at (image_round m) ''air_temperature_mean'' (1, 0) = Some 23"
proof -
  obtain m where m: "meanAirTempImage january = Inr m"
    by (simp add: meanAirTempImage_def eval_defs)
  have p0: "result_pixel (meanAirTempImage january) ''air_temperature_mean'' (0, 0) = Inr (Some 24.94)"
    and p1: "result_pixel (meanAirTempImage january) ''air_temperature_mean'' (1, 0) = Inr (Some 22.94)"
    by (simp_all add: result_pixel_def meanAirTempImage_def eval_defs)
  from rounding_for_export_only [of january] m
  have "stats january = image_reduceRegion m (roi january) (10 ^ 13)"
    and "map_sum id task_image (export_mean january) = Inr (image_round m)"
    and r: "\<forall>n p. pixel_at (image_round m) n p = map_option (\<lambda>v. of_int (round v)) (pixel_at m n p)"
    by blast+
  moreover from p0 p1 m have v: "pixel_at m ''air_temperature_mean'' (0, 0) = Some 24.94"
    "pixel_at m ''air_temperature_mean'' (1, 0) = Some 22.94"
    by (simp_all add: result_pixel_def)
  moreover from r v have "pixel_at (image_round m) ''air_temperature_mean'' (0, 0) = Some 25"
    "pixel_at (image_round m) ''air_temperature_mean'' (1, 0) = Some 23"
    by (simp_all add: round_def)
  ultimately show ?thesis
    using m january_stats by blast
qed

subsection \<open>The quality filter\<close>





lemma mask_band_quality:
  "qa p = Some (of_int q) \<Longrightarrow> mask_band b (quality_band qa) p = (if bit q 2 then None else b p)"
  by (simp add: mask_band_def quality_band_def)


lemma masked_at_filtered:
  assumes "qa p = Some (of_int q)" and "bit q 2"
  shows "masked_at (img\<lparr>bands := map (\<lambda>nb. (fst nb, mask_band (snd nb) (quality_band qa))) (bands img)\<rparr>) p"
  using mask_band_quality [where qa = qa and p = p and q = q, OF assms(1)] assms(2)
  by (simp add: masked_at_def list_all_iff)

























end
